theory Spec2Isabelle
  imports Main "HOL-Library.Product_Lexorder" "HOL-Library.Multiset" "HOL-Library.AList"
begin

section \<open>Data model of \<open>data.py\<close>\<close>

text \<open>
  Instants are counted in seconds, so one hour is 3600. A row of a pandas DataFrame
  carries the two key columns \<open>entityId\<close> and \<open>time_utc\<close> and, in \<open>cells\<close>, the value
  of every further column the row has (a column the row lacks is an empty cell, as in
  the outer join of \<open>pd.concat\<close>). The type of \<open>entityId\<close> is a parameter: it is an
  integer in the cache and a string, or a missing value, in a frame that was just
  parsed from a response. A DataFrame is the list of its rows in order, each with its
  index label.
\<close>

datatype error =
  RequestException | JSONDecodeError | KeyError | ValueError | OverflowError | TypeError

datatype ('e, 'v) row = Row (entityId: 'e) (time_utc: int) (cells: "(string \<times> 'v) list")

type_synonym ('e, 'v) frame = "(nat \<times> ('e, 'v) row) list"

text \<open>The content of the CSV file at \<open>DATA_FILENAME\<close>; \<open>None\<close> when the file does not exist.\<close>

type_synonym 'v csv_file = "(int, 'v) row list option"

text \<open>
  The JSON object of a response: each of the three keys the parser asks for may be
  absent, and \<open>other_keys\<close> says whether the object has any further key. The field
  \<open>entity\<close> is the key \<open>entityId\<close> of the object (the name \<open>entityId\<close> is kept for
  the column of a row). The instants of \<open>index\<close> are taken as already parsed.
\<close>

datatype 'v attribute = Attribute (attrName: "string option") (attr_values: "'v list option")

record 'v api_data =
  index :: "int list option"
  entity :: "string option"
  attributes :: "'v attribute list option"
  other_keys :: bool

text \<open>
  What \<open>requests.get\<close> does for a station and a date range: it raises, or it returns a
  response with a status code and a body that is a JSON object or not.
  \<open>BASE_URL\<close> and \<open>ACCESS_TOKEN\<close> only go into the request, and are part of the remote.
\<close>

datatype 'v http_response = ConnectionFailed | Response (status_code: nat) (json: "'v api_data option")

type_synonym 'v remote = "int \<Rightarrow> int \<Rightarrow> int \<Rightarrow> 'v http_response"

section \<open>Fetching and parsing\<close>

definition fetch_station_data ::
  "'v remote \<Rightarrow> int \<Rightarrow> int \<Rightarrow> int \<Rightarrow> error + 'v api_data option" where
  "fetch_station_data remote station_id from_date to_date =
     (case remote station_id from_date to_date of
        ConnectionFailed \<Rightarrow> Inl RequestException
      | Response status body \<Rightarrow>
          if status = 200
          then (case body of None \<Rightarrow> Inl JSONDecodeError | Some d \<Rightarrow> Inr (Some d))
          else Inr None)"

definition is_digit :: "char \<Rightarrow> bool" where
  "is_digit c = (c \<in> set ''0123456789'')"

fun strip_prefix :: "string \<Rightarrow> string \<Rightarrow> string option" where
  "strip_prefix [] s = Some s"
| "strip_prefix (p # ps) [] = None"
| "strip_prefix (p # ps) (c # cs) = (if p = c then strip_prefix ps cs else None)"

text \<open>
  \<open>re.search(r'KielRegion:(\d+)', entity_id)\<close>: the leftmost place where the literal is
  followed by a digit, and there the longest run of digits (group 1).
\<close>

fun re_search_KielRegion :: "string \<Rightarrow> string option" where
  "re_search_KielRegion [] = None"
| "re_search_KielRegion (c # cs) =
     (case strip_prefix ''KielRegion:'' (c # cs) of
        Some rest \<Rightarrow>
          if takeWhile is_digit rest \<noteq> [] then Some (takeWhile is_digit rest)
          else re_search_KielRegion cs
      | None \<Rightarrow> re_search_KielRegion cs)"

text \<open>
  The dict comprehension over \<open>data['attributes']\<close>: a later attribute of the same name
  replaces the values and keeps the place of the first; \<open>attr['attrName']\<close> raises
  \<open>KeyError\<close> when the name is absent, and \<open>attr.get('values', [])\<close> defaults to the
  empty list.
\<close>

fun attribute_data ::
  "(string \<times> 'v list) list \<Rightarrow> 'v attribute list \<Rightarrow> error + (string \<times> 'v list) list" where
  "attribute_data acc [] = Inr acc"
| "attribute_data acc (a # as) =
     (case attrName a of
        None \<Rightarrow> Inl KeyError
      | Some name \<Rightarrow>
          attribute_data
            (AList.update name (case attr_values a of None \<Rightarrow> [] | Some vs \<Rightarrow> vs) acc) as)"

definition create_dataframe_from_api_data ::
  "'v api_data \<Rightarrow> error + (string option, 'v) frame" where
  "create_dataframe_from_api_data data =
     (case (index data, entity data, attributes data) of
        (Some time_index, Some entity_id, Some attrs) \<Rightarrow>
          (let entity_id_number =
                 (case re_search_KielRegion entity_id of Some g \<Rightarrow> g | None \<Rightarrow> [])
           in case attribute_data [] attrs of
                Inl e \<Rightarrow> Inl e
              | Inr cols \<Rightarrow>
                  let n = (case cols of [] \<Rightarrow> 0 | c # _ \<Rightarrow> length (snd c))
                  in if \<exists>c \<in> set cols. length (snd c) \<noteq> n then Inl ValueError
                     else if n = 0 \<and> time_index \<noteq> []
                     then Inr (map (\<lambda>j. (j, Row None (time_index ! j) []))
                                 [0 ..< length time_index])
                     else if length time_index \<noteq> n then Inl ValueError
                     else Inr (map (\<lambda>j. (j, Row (Some entity_id_number) (time_index ! j)
                                               (map (\<lambda>c. (fst c, snd c ! j))
                                                  (filter (\<lambda>c. fst c \<noteq> ''entityId'' \<and>
                                                               fst c \<noteq> ''time_utc'') cols))))
                                 [0 ..< n]))
      | _ \<Rightarrow> Inl ValueError)"

text \<open>
  In \<open>create_dataframe_from_api_data\<close>, \<open>pd.DataFrame(attribute_data)\<close> raises
  \<open>ValueError\<close> when the columns differ in length. Setting \<open>time_utc\<close> on a frame of no
  rows from a non-empty index gives the frame that index: the columns it already has,
  \<open>entityId\<close> among them, are filled with missing values. Otherwise a length that
  differs from the frame's raises \<open>ValueError\<close>. The assignments to \<open>df['entityId']\<close>
  and \<open>df['time_utc']\<close> replace a column of that name that came from an attribute, so
  such an attribute leaves no cell.
\<close>

section \<open>The synchronisation routine\<close>

text \<open>\<open>pd.date_range(start, end, freq='h')\<close>: \<open>start\<close>, \<open>start + 1h\<close>, ... up to \<open>end\<close>.\<close>

definition date_range :: "int \<Rightarrow> int \<Rightarrow> int list" where
  "date_range start end' =
     map (\<lambda>k. start + 3600 * int k) [0 ..< nat ((end' - start) div 3600 + 1)]"

definition read_csv :: "(int, 'v) row list \<Rightarrow> (int, 'v) frame" where
  "read_csv rows = zip [0 ..< length rows] rows"

text \<open>
  Lines 203 to 212: the cache as loaded, without the rows before \<open>START_DATE\<close>.
  \<open>START_DATE\<close> carries a time zone (lines 292 and 293), and so do the instants of a
  file with rows, as \<open>to_csv\<close> wrote them. A file that exists and has no row gives an
  empty \<open>time_utc\<close> column, which \<open>pd.to_datetime\<close> turns into a column without time
  zone: the comparison with \<open>START_DATE\<close> at line 209 then raises \<open>TypeError\<close>.
\<close>

definition old_data_temp :: "'v csv_file \<Rightarrow> int \<Rightarrow> error + (int, 'v) frame" where
  "old_data_temp file START_DATE =
     (case file of
        Some rows \<Rightarrow>
          if rows = [] then Inl TypeError
          else Inr (filter (\<lambda>r. time_utc (snd r) \<ge> START_DATE) (read_csv rows))
      | None \<Rightarrow> Inr [])"

definition missing_dates :: "(int, 'v) frame \<Rightarrow> int list \<Rightarrow> int \<Rightarrow> int list" where
  "missing_dates old full_date_range station_id =
     (let station_data = filter (\<lambda>r. entityId (snd r) = station_id) old;
          available_dates = map (\<lambda>r. time_utc (snd r)) station_data
      in filter (\<lambda>h. h \<notin> set available_dates) full_date_range)"

text \<open>
  The state of the loop over \<open>STATION_IDS\<close>: the frames collected so far, and the
  calls made to the remote so far (station, \<open>fromDate\<close>, \<open>toDate\<close>).
\<close>

record 'v loop_state =
  fetch_calls :: "(int \<times> int \<times> int) list"
  dataframes :: "(string option, 'v) frame list"

text \<open>
  One pass of the loop body, lines 221 to 244. Every exception of the \<open>try\<close> block is
  caught; \<open>if data:\<close> is false for \<open>None\<close> and for the empty object.
\<close>

definition truthy :: "'v api_data \<Rightarrow> bool" where
  "truthy data =
     (index data \<noteq> None \<or> entity data \<noteq> None \<or> attributes data \<noteq> None \<or> other_keys data)"

definition station_step ::
  "(int, 'v) frame \<Rightarrow> int list \<Rightarrow> int \<Rightarrow> 'v remote \<Rightarrow> 'v loop_state \<Rightarrow> int \<Rightarrow> 'v loop_state" where
  "station_step old full_date_range END_DATE remote st station_id =
     (case missing_dates old full_date_range station_id of
        [] \<Rightarrow> st
      | request_start_date # _ \<Rightarrow>
          (let st' = st\<lparr>fetch_calls :=
                          fetch_calls st @ [(station_id, request_start_date, END_DATE)]\<rparr>
           in case fetch_station_data remote station_id request_start_date END_DATE of
                Inl e \<Rightarrow> st'
              | Inr None \<Rightarrow> st'
              | Inr (Some data) \<Rightarrow>
                  if truthy data
                  then (case create_dataframe_from_api_data data of
                          Inl e \<Rightarrow> st'
                        | Inr df \<Rightarrow> st'\<lparr>dataframes := dataframes st' @ [df]\<rparr>)
                  else st'))"

definition station_loop ::
  "(int, 'v) frame \<Rightarrow> int list \<Rightarrow> int \<Rightarrow> 'v remote \<Rightarrow> int list \<Rightarrow> 'v loop_state" where
  "station_loop old full_date_range END_DATE remote STATION_IDS =
     foldl (station_step old full_date_range END_DATE remote)
       \<lparr>fetch_calls = [], dataframes = []\<rparr> STATION_IDS"

text \<open>
  \<open>astype('int64')\<close> on the \<open>entityId\<close> column of the new rows, which holds the digits
  found by the pattern, the empty string, or a missing value: the cast raises on the
  last two, on a string of more than 4300 digits (the limit of \<open>int\<close> on strings, with
  \<open>ValueError\<close>) and on a number that does not fit 64 bits.
\<close>

definition digit_value :: "char \<Rightarrow> int" where
  "digit_value c = int (of_char c) - 48"

definition int_of_digits :: "string \<Rightarrow> int" where
  "int_of_digits s = foldl (\<lambda>a c. 10 * a + digit_value c) 0 s"

definition int64_of_entity :: "string option \<Rightarrow> error + int" where
  "int64_of_entity e =
     (case e of
        None \<Rightarrow> Inl ValueError
      | Some s \<Rightarrow>
          if s = [] \<or> \<not> list_all is_digit s \<or> length s > 4300 then Inl ValueError
          else if int_of_digits s < 2 ^ 63 then Inr (int_of_digits s)
          else Inl OverflowError)"

fun astype_int64 :: "(string option, 'v) frame \<Rightarrow> error + (int, 'v) frame" where
  "astype_int64 [] = Inr []"
| "astype_int64 (r # rs) =
     (case int64_of_entity (entityId (snd r)) of
        Inl e \<Rightarrow> Inl e
      | Inr n \<Rightarrow>
          (case astype_int64 rs of
             Inl e \<Rightarrow> Inl e
           | Inr rs' \<Rightarrow> Inr ((fst r, Row n (time_utc (snd r)) (cells (snd r))) # rs')))"

definition sort_key_of :: "(int, 'v) row \<Rightarrow> int \<times> int" where
  "sort_key_of r = (entityId r, time_utc r)"

definition sort_values :: "(int, 'v) frame \<Rightarrow> (int, 'v) frame" where
  "sort_values df = sort_key (\<lambda>r. sort_key_of (snd r)) df"

definition reset_index :: "('e, 'v) frame \<Rightarrow> ('e, 'v) frame" where
  "reset_index df = zip [0 ..< length df] (map snd df)"

definition to_csv :: "('e, 'v) frame \<Rightarrow> ('e, 'v) row list" where
  "to_csv df = map snd df"

text \<open>Lines 248 to 250: the new frames joined, with \<open>entityId\<close> cast, or the exception of the cast.\<close>

definition new_data_temp :: "(string option, 'v) frame list \<Rightarrow> error + (int, 'v) frame" where
  "new_data_temp dfs = astype_int64 (concat dfs)"

text \<open>Lines 252 to 256: the frame \<open>combined_data_temp\<close> that is handed to \<open>to_csv\<close>.\<close>

definition combined_data_temp ::
  "(int, 'v) frame \<Rightarrow> (string option, 'v) frame list \<Rightarrow> error + (int, 'v) frame" where
  "combined_data_temp old dfs =
     (case new_data_temp dfs of
        Inl e \<Rightarrow> Inl e
      | Inr new \<Rightarrow> Inr (reset_index (sort_values (old @ new))))"

text \<open>
  What a run leaves behind: the calls made to the remote, the exception that left the
  routine (if any), and the rows written to the file (if it was written).
\<close>

record 'v outcome =
  calls :: "(int \<times> int \<times> int) list"
  raised :: "error option"
  written :: "(int, 'v) row list option"

text \<open>
  The routine, lines 172 to 270. \<open>file\<close> is the content at \<open>DATA_FILENAME\<close> before
  the run and \<open>remote\<close> stands for the service behind \<open>BASE_URL\<close> and
  \<open>ACCESS_TOKEN\<close>. An exception of the load leaves the routine before the loop, and an
  exception of the cast leaves it before \<open>to_csv\<close> is reached. The messages printed are
  not part of the outcome.
\<close>

definition update_and_save_station_data ::
  "'v csv_file \<Rightarrow> int list \<Rightarrow> int \<Rightarrow> int \<Rightarrow> 'v remote \<Rightarrow> 'v outcome" where
  "update_and_save_station_data file STATION_IDS START_DATE END_DATE remote =
     (case old_data_temp file START_DATE of
        Inl e \<Rightarrow> \<lparr>calls = [], raised = Some e, written = None\<rparr>
      | Inr old \<Rightarrow>
          (let full_date_range = date_range START_DATE (END_DATE - 3600);
               st = station_loop old full_date_range END_DATE remote STATION_IDS
           in if dataframes st \<noteq> []
              then (case combined_data_temp old (dataframes st) of
                      Inl e \<Rightarrow> \<lparr>calls = fetch_calls st, raised = Some e, written = None\<rparr>
                    | Inr combined \<Rightarrow>
                        \<lparr>calls = fetch_calls st, raised = None,
                         written = Some (to_csv combined)\<rparr>)
              else \<lparr>calls = fetch_calls st, raised = None, written = None\<rparr>))"

text \<open>The file after the run: overwritten in full if the run wrote, as it was otherwise.\<close>

definition file_after :: "'v csv_file \<Rightarrow> 'v outcome \<Rightarrow> 'v csv_file" where
  "file_after file out = (case written out of Some rows \<Rightarrow> Some rows | None \<Rightarrow> file)"

section \<open>Notions used to state the properties\<close>

text \<open>The rows of the file as it is on disk, none when the file does not exist.\<close>

definition cache_rows :: "'v csv_file \<Rightarrow> (int, 'v) row list" where
  "cache_rows file = (case file of Some rows \<Rightarrow> rows | None \<Rightarrow> [])"

text \<open>The frame that a load without exception gives: the rows at or after \<open>START_DATE\<close>.\<close>

definition retained :: "'v csv_file \<Rightarrow> int \<Rightarrow> (int, 'v) frame" where
  "retained file START_DATE =
     filter (\<lambda>r. time_utc (snd r) \<ge> START_DATE) (read_csv (cache_rows file))"

text \<open>The file holds a row of station \<open>s\<close> at the instant \<open>h\<close>.\<close>

definition cached :: "'v csv_file \<Rightarrow> int \<Rightarrow> int \<Rightarrow> bool" where
  "cached file s h = (\<exists>r \<in> set (cache_rows file). entityId r = s \<and> time_utc r = h)"

text \<open>The hours of the window of a station that the file lacks, in ascending order.\<close>

definition missing_hours :: "'v csv_file \<Rightarrow> int \<Rightarrow> int \<Rightarrow> int \<Rightarrow> int list" where
  "missing_hours file START_DATE END_DATE s =
     filter (\<lambda>h. \<not> cached file s h) (date_range START_DATE (END_DATE - 3600))"

text \<open>What one station adds to the calls and to the frames of the loop.\<close>

definition station_calls ::
  "(int, 'v) frame \<Rightarrow> int list \<Rightarrow> int \<Rightarrow> int \<Rightarrow> (int \<times> int \<times> int) list" where
  "station_calls old full_date_range END_DATE station_id =
     (case missing_dates old full_date_range station_id of
        [] \<Rightarrow> []
      | h # _ \<Rightarrow> [(station_id, h, END_DATE)])"

definition station_frames ::
  "(int, 'v) frame \<Rightarrow> int list \<Rightarrow> int \<Rightarrow> 'v remote \<Rightarrow> int \<Rightarrow> (string option, 'v) frame list" where
  "station_frames old full_date_range END_DATE remote station_id =
     dataframes (station_step old full_date_range END_DATE remote
                   \<lparr>fetch_calls = [], dataframes = []\<rparr> station_id)"

text \<open>
  A response that fails one station: the request raised, the status is not 200, the
  body is not JSON, or the object lacks one of the three keys.
\<close>

definition failed_response :: "'v http_response \<Rightarrow> bool" where
  "failed_response resp =
     (case resp of
        ConnectionFailed \<Rightarrow> True
      | Response status body \<Rightarrow>
          status \<noteq> 200 \<or>
          (case body of
             None \<Rightarrow> True
           | Some d \<Rightarrow> index d = None \<or> entity d = None \<or> attributes d = None))"

section \<open>Concrete remotes and caches\<close>

text \<open>The runs evaluated below use these inputs; 06:00 is 21600 seconds and 10:00 is 36000.\<close>

text \<open>A response with status 200 whose object has the three keys and one attribute.\<close>

definition station_response :: "string \<Rightarrow> int list \<Rightarrow> int list \<Rightarrow> int http_response" where
  "station_response entity_id time_index vals =
     Response 200 (Some \<lparr>index = Some time_index, entity = Some entity_id,
       attributes = Some [Attribute (Some ''availableBikeNumber'') (Some vals)],
       other_keys = False\<rparr>)"

text \<open>A remote that has every hour from \<open>fromDate\<close> up to, not including, \<open>toDate\<close> for station 100; the value of an hour is its number.\<close>

definition hourly_remote :: "int remote" where
  "hourly_remote station_id from_date to_date =
     station_response ''urn:ngsi-ld:BikeHireDockingStation:KielRegion:100''
       (date_range from_date (to_date - 3600))
       (map (\<lambda>h. h div 3600) (date_range from_date (to_date - 3600)))"

text \<open>A cache that holds station 100 at 08:00 and 09:00 (28800 and 32400 seconds), with values the remote does not have.\<close>

definition stale_cache :: "int csv_file" where
  "stale_cache = Some [Row 100 28800 [(''availableBikeNumber'', 50)],
                       Row 100 32400 [(''availableBikeNumber'', 51)]]"

text \<open>A remote that has only the hour 07:00 (25200 seconds) of station 100, whatever is asked.\<close>

definition partial_remote :: "int remote" where
  "partial_remote station_id from_date to_date =
     station_response ''urn:ngsi-ld:BikeHireDockingStation:KielRegion:100'' [25200] [7]"

text \<open>A remote whose entity identifier has no \<open>KielRegion:\<close> followed by digits.\<close>

definition unmatched_remote :: "int remote" where
  "unmatched_remote station_id from_date to_date =
     station_response ''urn:ngsi-ld:BikeHireDockingStation:24370'' [0] [3]"

text \<open>A remote that answers 200 with an index of no instants and an attribute of no values.\<close>

definition empty_remote :: "int remote" where
  "empty_remote station_id from_date to_date =
     station_response ''urn:ngsi-ld:BikeHireDockingStation:KielRegion:24370'' [] []"

text \<open>A remote that answers 404 to every request.\<close>

definition not_found_remote :: "int remote" where
  "not_found_remote station_id from_date to_date = Response 404 None"

text \<open>A cache whose one row is an hour older than the windows used below.\<close>

definition old_cache :: "int csv_file" where
  "old_cache = Some [Row 24370 (- 3600) [(''availableBikeNumber'', 2)]]"

text \<open>A cache that holds station 24370 at 01:00 (3600 seconds).\<close>

definition kiel_cache :: "int csv_file" where
  "kiel_cache = Some [Row 24370 3600 [(''availableBikeNumber'', 4)]]"

text \<open>A remote that has every hour of the range for station 24370, with value 5, and whose object for station 24397 lacks \<open>index\<close>.\<close>

definition kiel_remote :: "int remote" where
  "kiel_remote station_id from_date to_date =
     (if station_id = 24397
      then Response 200 (Some \<lparr>index = None, entity = Some ''urn:ngsi-ld:BikeHireDockingStation:KielRegion:24397'',
                               attributes = Some [], other_keys = False\<rparr>)
      else station_response ''urn:ngsi-ld:BikeHireDockingStation:KielRegion:24370''
             (date_range from_date (to_date - 3600))
             (map (\<lambda>h. 5) (date_range from_date (to_date - 3600))))"

text \<open>A remote that answers with one hour more on each side of the range asked: from the hour before \<open>fromDate\<close> through \<open>toDate\<close> itself.\<close>

definition wide_remote :: "int remote" where
  "wide_remote station_id from_date to_date =
     station_response ''urn:ngsi-ld:BikeHireDockingStation:KielRegion:100''
       (date_range (from_date - 3600) to_date)
       (map (\<lambda>h. h div 3600) (date_range (from_date - 3600) to_date))"

text \<open>
  A remote that answers station 100 as \<open>wide_remote\<close> does and every other station as
  \<open>unmatched_remote\<close> does.
\<close>

definition mixed_remote :: "int remote" where
  "mixed_remote station_id from_date to_date =
     (if station_id = 100 then wide_remote station_id from_date to_date
      else unmatched_remote station_id from_date to_date)"

section \<open>Auxiliary facts\<close>

subsection \<open>Frames and the loop\<close>

lemma map_snd_insort_key:
  "map snd (insort_key (\<lambda>r. f (snd r)) x xs) = insort_key f (snd x) (map snd xs)"
  by (induction xs) auto

lemma map_snd_sort_key:
  "map snd (sort_key (\<lambda>r. f (snd r)) xs) = sort_key f (map snd xs)"
  by (induction xs) (auto simp: map_snd_insort_key)

lemma to_csv_reset_index: "to_csv (reset_index df) = map snd df"
  by (simp add: to_csv_def reset_index_def)

lemma labels_reset_index: "map fst (reset_index df) = [0 ..< length df]"
  by (simp add: reset_index_def)

lemma to_csv_sorted:
  "to_csv (reset_index (sort_values df)) = sort_key sort_key_of (map snd df)"
  by (simp add: to_csv_reset_index sort_values_def map_snd_sort_key)

lemma station_step_eq:
  "station_step old H E remote st s =
     \<lparr>fetch_calls = fetch_calls st @ station_calls old H E s,
      dataframes = dataframes st @ station_frames old H E remote s\<rparr>"
  by (cases st) (simp add: station_step_def station_calls_def station_frames_def Let_def
        split: list.splits sum.splits option.splits)

lemma foldl_station_step:
  "foldl (station_step old H E remote) st ids =
     \<lparr>fetch_calls = fetch_calls st @ concat (map (station_calls old H E) ids),
      dataframes = dataframes st @ concat (map (station_frames old H E remote) ids)\<rparr>"
proof (induction ids arbitrary: st)
  case Nil
  show ?case by simp
next
  case (Cons s ids)
  show ?case by (simp add: Cons.IH) (simp add: station_step_eq)
qed

lemma station_loop_eq:
  "station_loop old H E remote ids =
     \<lparr>fetch_calls = concat (map (station_calls old H E) ids),
      dataframes = concat (map (station_frames old H E remote) ids)\<rparr>"
  by (simp add: station_loop_def foldl_station_step)

subsection \<open>Loading the cache\<close>

lemma old_data_temp_header_only: "old_data_temp (Some []) S = Inl TypeError"
  by (simp add: old_data_temp_def)

lemma old_data_temp_retained: "cache \<noteq> Some [] \<Longrightarrow> old_data_temp cache S = Inr (retained cache S)"
  by (cases cache) (simp_all add: old_data_temp_def retained_def cache_rows_def read_csv_def)

lemma old_data_temp_Inr:
  "old_data_temp cache S = Inr old \<Longrightarrow> cache \<noteq> Some [] \<and> old = retained cache S"
  by (cases "cache = Some []") (simp_all add: old_data_temp_header_only old_data_temp_retained)

lemma update_header_only:
  "update_and_save_station_data (Some []) ids S E remote =
     \<lparr>calls = [], raised = Some TypeError, written = None\<rparr>"
  by (simp add: update_and_save_station_data_def old_data_temp_header_only)

lemma written_loaded:
  "written (update_and_save_station_data cache ids S E remote) = Some rows \<Longrightarrow> cache \<noteq> Some []"
  by (auto simp: update_header_only)

lemma called_loaded:
  "c \<in> set (calls (update_and_save_station_data cache ids S E remote)) \<Longrightarrow> cache \<noteq> Some []"
  by (auto simp: update_header_only)

subsection \<open>The outcome of a run in terms of the two lists of the loop\<close>

lemma calls_update:
  "cache \<noteq> Some [] \<Longrightarrow>
   calls (update_and_save_station_data cache ids S E remote) =
     concat (map (station_calls (retained cache S) (date_range S (E - 3600)) E) ids)"
  by (simp add: update_and_save_station_data_def old_data_temp_retained Let_def station_loop_eq
        split: sum.splits)

lemma written_update:
  "cache \<noteq> Some [] \<Longrightarrow>
   written (update_and_save_station_data cache ids S E remote) =
     (let old = retained cache S;
          dfs = concat (map (station_frames old (date_range S (E - 3600)) E remote) ids)
      in if dfs = [] then None
         else (case new_data_temp dfs of
                 Inl e \<Rightarrow> None
               | Inr new \<Rightarrow> Some (sort_key sort_key_of (map snd old @ map snd new))))"
  by (simp add: update_and_save_station_data_def old_data_temp_retained Let_def station_loop_eq
        combined_data_temp_def to_csv_sorted split: sum.splits)

lemma raised_update:
  "cache \<noteq> Some [] \<Longrightarrow>
   raised (update_and_save_station_data cache ids S E remote) =
     (let old = retained cache S;
          dfs = concat (map (station_frames old (date_range S (E - 3600)) E remote) ids)
      in if dfs = [] then None
         else (case new_data_temp dfs of Inl e \<Rightarrow> Some e | Inr new \<Rightarrow> None))"
  by (simp add: update_and_save_station_data_def old_data_temp_retained Let_def station_loop_eq
        combined_data_temp_def split: sum.splits)

lemma map_snd_read_csv: "map snd (read_csv rows) = rows"
  by (simp add: read_csv_def)

lemma map_snd_filter: "map snd (filter (\<lambda>r. P (snd r)) xs) = filter P (map snd xs)"
  by (induction xs) auto

lemma rows_retained:
  "map snd (retained cache S) = filter (\<lambda>r. S \<le> time_utc r) (cache_rows cache)"
  by (simp add: retained_def map_snd_read_csv map_snd_filter[of "\<lambda>r. S \<le> time_utc r"])

lemma date_range_Nil: "(date_range S E = []) = (E < S)"
proof -
  have "(nat ((E - S) div 3600 + 1) = 0) = (E < S)"
    by (simp add: zdiv_eq_0_iff) linarith
  then show ?thesis
    by (simp add: date_range_def)
qed

lemma date_range_Cons: "S \<le> E \<Longrightarrow> \<exists>hs. date_range S E = S # hs"
proof -
  assume "S \<le> E"
  then have "0 < nat ((E - S) div 3600 + 1)"
    using date_range_Nil[of S E] by (simp add: date_range_def)
  then have "[0 ..< nat ((E - S) div 3600 + 1)] = 0 # [Suc 0 ..< nat ((E - S) div 3600 + 1)]"
    by (rule upt_conv_Cons)
  then show ?thesis
    by (simp add: date_range_def)
qed

lemma in_date_range_ge: "h \<in> set (date_range S E) \<Longrightarrow> S \<le> h"
  by (auto simp: date_range_def)

lemma missing_dates_eq:
  "missing_dates (retained cache S) (date_range S E') s =
     filter (\<lambda>h. \<not> cached cache s h) (date_range S E')"
proof -
  have "h \<in> set (date_range S E') \<Longrightarrow>
        (h \<in> set (map (\<lambda>r. time_utc (snd r))
                   (filter (\<lambda>r. entityId (snd r) = s) (retained cache S))))
         = cached cache s h" for h
  proof -
    assume h: "h \<in> set (date_range S E')"
    have "(h \<in> set (map (\<lambda>r. time_utc (snd r))
                     (filter (\<lambda>r. entityId (snd r) = s) (retained cache S))))
       = (\<exists>r \<in> set (map snd (retained cache S)). entityId r = s \<and> time_utc r = h)"
      by force
    also have "\<dots> = cached cache s h"
      using in_date_range_ge[OF h] by (auto simp: rows_retained cached_def)
    finally show ?thesis .
  qed
  then show ?thesis
    by (auto simp: missing_dates_def Let_def intro!: filter_cong)
qed

lemma sorted_date_range: "sorted (date_range S E)"
  by (auto simp: date_range_def sorted_map intro!: sorted_wrt_mono_rel[of _ "(\<le>)"])

subsection \<open>The hours a station lacks\<close>

lemma hd_sorted_Min: "sorted (x # xs) \<Longrightarrow> Min (set (x # xs)) = x"
  by (intro Min_eqI) auto

lemma sorted_missing_hours: "sorted (missing_hours cache S E s)"
  by (simp add: missing_hours_def sorted_date_range sorted_wrt_filter)

lemma set_missing_hours:
  "set (missing_hours cache S E s) = {h \<in> set (date_range S (E - 3600)). \<not> cached cache s h}"
  by (auto simp: missing_hours_def)

lemma missing_hours_Nil:
  "(missing_hours cache S E s = []) = (\<forall>h \<in> set (date_range S (E - 3600)). cached cache s h)"
  by (auto simp: missing_hours_def filter_empty_conv)

lemma station_calls_missing_hours:
  "station_calls (retained cache S) (date_range S (E - 3600)) E s =
     (case missing_hours cache S E s of [] \<Rightarrow> [] | h # _ \<Rightarrow> [(s, h, E)])"
  by (simp add: station_calls_def missing_dates_eq missing_hours_def)

lemma station_calls_Min:
  "station_calls (retained cache S) (date_range S (E - 3600)) E s =
     (if \<forall>h \<in> set (date_range S (E - 3600)). cached cache s h then []
      else [(s, Min {h \<in> set (date_range S (E - 3600)). \<not> cached cache s h}, E)])"
proof (cases "missing_hours cache S E s")
  case Nil
  then show ?thesis
    using missing_hours_Nil[of cache S E s] by (simp add: station_calls_missing_hours)
next
  case (Cons h hs)
  have "sorted (h # hs)"
    using sorted_missing_hours[of cache S E s] Cons by simp
  then have "Min (set (h # hs)) = h"
    by (rule hd_sorted_Min)
  then have "Min {h \<in> set (date_range S (E - 3600)). \<not> cached cache s h} = h"
    using set_missing_hours[of cache S E s] Cons by simp
  moreover have "\<not> (\<forall>h \<in> set (date_range S (E - 3600)). cached cache s h)"
    using missing_hours_Nil[of cache S E s] Cons by simp
  ultimately show ?thesis
    using Cons by (simp add: station_calls_missing_hours)
qed

lemma count_calls:
  "length (filter (\<lambda>c. fst c = s) (concat (map (\<lambda>t. if P t then [] else [(t, f t, E)]) ids))) =
     (if P s then 0 else count_list ids s)"
  by (induction ids) auto

subsection \<open>What a station adds to the frames\<close>

lemma no_frames_no_write:
  assumes "cache \<noteq> Some []"
    and "dataframes (station_loop (retained cache S) (date_range S (E - 3600)) E remote ids) = []"
  shows "update_and_save_station_data cache ids S E remote =
           \<lparr>calls = fetch_calls (station_loop (retained cache S) (date_range S (E - 3600)) E remote ids),
            raised = None, written = None\<rparr>"
  using assms by (simp add: update_and_save_station_data_def old_data_temp_retained Let_def)

lemma station_frames_complete:
  "missing_hours cache S E s = [] \<Longrightarrow>
   station_frames (retained cache S) (date_range S (E - 3600)) E remote s = []"
  by (simp add: station_frames_def station_step_def missing_dates_eq missing_hours_def)

lemma station_frames_failed:
  assumes "missing_hours cache S E s = h # hs" and "failed_response (remote s h E)"
  shows "station_frames (retained cache S) (date_range S (E - 3600)) E remote s = []"
proof -
  have m: "missing_dates (retained cache S) (date_range S (E - 3600)) s = h # hs"
    using assms(1) by (simp add: missing_dates_eq missing_hours_def)
  show ?thesis
    using assms(2)
    by (auto simp: station_frames_def station_step_def m Let_def failed_response_def
          fetch_station_data_def create_dataframe_from_api_data_def
          split: http_response.splits option.splits sum.splits)
qed

lemma update_cong_frames:
  assumes "concat (map (station_frames (retained cache S) (date_range S (E - 3600)) E remote) ids) =
           concat (map (station_frames (retained cache S) (date_range S (E - 3600)) E remote) ids')"
  shows "written (update_and_save_station_data cache ids S E remote) =
           written (update_and_save_station_data cache ids' S E remote)"
    and "raised (update_and_save_station_data cache ids S E remote) =
           raised (update_and_save_station_data cache ids' S E remote)"
proof -
  show "written (update_and_save_station_data cache ids S E remote) =
           written (update_and_save_station_data cache ids' S E remote)"
  proof (cases "cache = Some []")
    case True
    then show ?thesis by (simp add: update_header_only)
  next
    case False
    show ?thesis by (simp only: written_update[OF False] Let_def assms)
  qed
  show "raised (update_and_save_station_data cache ids S E remote) =
           raised (update_and_save_station_data cache ids' S E remote)"
  proof (cases "cache = Some []")
    case True
    then show ?thesis by (simp add: update_header_only)
  next
    case False
    show ?thesis by (simp only: raised_update[OF False] Let_def assms)
  qed
qed

lemma create_dataframe_missing_key:
  "index data = None \<or> entity data = None \<or> attributes data = None \<Longrightarrow>
   create_dataframe_from_api_data data = Inl ValueError"
  by (auto simp: create_dataframe_from_api_data_def split: option.splits)

lemma create_dataframe_keys:
  "create_dataframe_from_api_data data = Inr df \<Longrightarrow>
   index data \<noteq> None \<and> entity data \<noteq> None \<and> attributes data \<noteq> None"
  by (auto simp: create_dataframe_from_api_data_def split: option.splits)

lemma map_nth_length: "length xs = n \<Longrightarrow> map ((!) xs) [0 ..< n] = xs"
  by (auto simp: map_nth)

lemma create_dataframe_times:
  assumes "create_dataframe_from_api_data data = Inr df" and "index data = Some time_index"
  shows "map (\<lambda>p. time_utc (snd p)) df = time_index"
  using assms
  by (auto simp: create_dataframe_from_api_data_def Let_def o_def map_nth map_nth_length
        split: option.splits sum.splits if_splits)

lemma station_frames_parsed:
  assumes "missing_hours cache S E s = h # hs"
    and "remote s h E = Response 200 (Some data)"
    and "create_dataframe_from_api_data data = Inr df"
  shows "station_frames (retained cache S) (date_range S (E - 3600)) E remote s = [df]"
proof -
  have m: "missing_dates (retained cache S) (date_range S (E - 3600)) s = h # hs"
    using assms(1) by (simp add: missing_dates_eq missing_hours_def)
  have "truthy data"
    using create_dataframe_keys[OF assms(3)] by (simp add: truthy_def)
  then show ?thesis
    by (simp add: station_frames_def station_step_def m Let_def fetch_station_data_def
          assms(2) assms(3))
qed

subsection \<open>The merge\<close>

lemma written_combined:
  assumes "written (update_and_save_station_data cache ids S E remote) = Some rows"
  shows "\<exists>old combined.
           old_data_temp cache S = Inr old \<and>
           combined_data_temp old
             (dataframes (station_loop old (date_range S (E - 3600)) E remote ids))
             = Inr combined \<and> rows = to_csv combined"
  using assms
  by (auto simp: update_and_save_station_data_def Let_def split: if_splits sum.splits)

lemma combined_labels:
  "combined_data_temp old dfs = Inr combined \<Longrightarrow> map fst combined = [0 ..< length combined]"
  by (auto simp: combined_data_temp_def labels_reset_index reset_index_def split: sum.splits)

lemma written_new:
  assumes "written (update_and_save_station_data cache ids S E remote) = Some rows"
  shows "\<exists>new.
           new_data_temp
             (dataframes (station_loop (retained cache S) (date_range S (E - 3600)) E remote ids))
             = Inr new \<and>
           rows = sort_key sort_key_of
                    (filter (\<lambda>r. S \<le> time_utc r) (cache_rows cache) @ map snd new)"
  using assms written_loaded[OF assms]
  by (auto simp: written_update station_loop_eq Let_def rows_retained
        split: if_splits sum.splits)

lemma astype_int64_row:
  "astype_int64 df = Inr new \<Longrightarrow> (i, r) \<in> set df \<Longrightarrow>
   \<exists>n. int64_of_entity (entityId r) = Inr n \<and> (i, Row n (time_utc r) (cells r)) \<in> set new"
proof (induction df arbitrary: new)
  case Nil
  then show ?case by simp
next
  case (Cons p df)
  then show ?case
    by (auto split: sum.splits)
qed

lemma astype_int64_error: "astype_int64 df = Inl e \<Longrightarrow> e = ValueError \<or> e = OverflowError"
proof (induction df)
  case Nil
  then show ?case by simp
next
  case (Cons p df)
  then show ?case
    by (auto simp: int64_of_entity_def split: sum.splits option.splits if_splits)
qed

lemma new_data_temp_no_TypeError: "new_data_temp dfs \<noteq> Inl TypeError"
  using astype_int64_error[of "concat dfs" TypeError] by (auto simp: new_data_temp_def)

subsection \<open>The calls of a run whose load succeeds\<close>

text \<open>
  When the file is missing or has a row: for each entry of \<open>STATION_IDS\<close>, in order, the
  remote is called if and only if some hour of the window has no row of that station in
  the file, once, from the earliest missing hour to \<open>END_DATE\<close>; with no hour missing
  anywhere, nothing is called and nothing is written.
\<close>

lemma fetch_calls_loaded:
  assumes "cache \<noteq> Some []"
  shows "calls (update_and_save_station_data cache ids S E remote) =
     concat (map (\<lambda>s. if \<forall>h \<in> set (date_range S (E - 3600)). cached cache s h then []
                      else [(s, Min {h \<in> set (date_range S (E - 3600)). \<not> cached cache s h}, E)]) ids)"
    and "length (filter (\<lambda>c. fst c = s) (calls (update_and_save_station_data cache ids S E remote))) =
            (if \<forall>h \<in> set (date_range S (E - 3600)). cached cache s h then 0 else count_list ids s)"
    and "\<forall>s \<in> set ids. \<forall>h \<in> set (date_range S (E - 3600)). cached cache s h \<Longrightarrow>
        calls (update_and_save_station_data cache ids S E remote) = [] \<and>
        written (update_and_save_station_data cache ids S E remote) = None \<and>
        file_after cache (update_and_save_station_data cache ids S E remote) = cache"
proof -
  show c: "calls (update_and_save_station_data cache ids S E remote) =
     concat (map (\<lambda>s. if \<forall>h \<in> set (date_range S (E - 3600)). cached cache s h then []
                      else [(s, Min {h \<in> set (date_range S (E - 3600)). \<not> cached cache s h}, E)]) ids)"
  proof -
    have "station_calls (retained cache S) (date_range S (E - 3600)) E =
            (\<lambda>s. if \<forall>h \<in> set (date_range S (E - 3600)). cached cache s h then []
                 else [(s, Min {h \<in> set (date_range S (E - 3600)). \<not> cached cache s h}, E)])"
      by (rule ext) (rule station_calls_Min)
    then show ?thesis by (simp add: calls_update[OF assms])
  qed
  show "length (filter (\<lambda>c. fst c = s) (calls (update_and_save_station_data cache ids S E remote))) =
          (if \<forall>h \<in> set (date_range S (E - 3600)). cached cache s h then 0 else count_list ids s)"
    unfolding c
    by (rule count_calls[of s "\<lambda>s. \<forall>h \<in> set (date_range S (E - 3600)). cached cache s h"])
  assume all: "\<forall>s \<in> set ids. \<forall>h \<in> set (date_range S (E - 3600)). cached cache s h"
  then have c0: "calls (update_and_save_station_data cache ids S E remote) = []"
    unfolding c by simp
  have "\<forall>s \<in> set ids. missing_hours cache S E s = []"
    using all by (simp add: missing_hours_Nil)
  then have "dataframes (station_loop (retained cache S) (date_range S (E - 3600)) E remote ids) = []"
    by (simp add: station_loop_eq station_frames_complete)
  then have w: "written (update_and_save_station_data cache ids S E remote) = None"
    by (simp add: no_frames_no_write[OF assms])
  show "calls (update_and_save_station_data cache ids S E remote) = [] \<and>
        written (update_and_save_station_data cache ids S E remote) = None \<and>
        file_after cache (update_and_save_station_data cache ids S E remote) = cache"
    using c0 w by (simp add: file_after_def)
qed

lemma called_missing_hours:
  assumes "(s, h, E) \<in> set (calls (update_and_save_station_data cache ids S E remote))"
  shows "\<exists>hs. missing_hours cache S E s = h # hs"
proof -
  have l: "cache \<noteq> Some []"
    using assms by (rule called_loaded)
  obtain t where "(s, h, E) \<in> set (station_calls (retained cache S) (date_range S (E - 3600)) E t)"
    using assms by (auto simp: calls_update[OF l])
  then show ?thesis
    by (cases "missing_hours cache S E t") (auto simp: station_calls_missing_hours)
qed

text \<open>
  C1. The claim: every written file has at most one row per pair of \<open>entityId\<close> and
  \<open>time_utc\<close>, also when the fetch returns hours the cache already holds. The merge is
  \<open>pd.concat\<close> followed by a sort and drops nothing: with station 24370 cached at 01:00
  and the window from 00:00 to 02:00, the earliest missing hour is 00:00, the fetch
  returns 00:00 and 01:00, and the written file holds 01:00 twice.
\<close>

theorem C1_duplicate_rows_written:
  "written (update_and_save_station_data kiel_cache [24370] 0 7200 kiel_remote) =
     Some [Row 24370 0 [(''availableBikeNumber'', 5)],
           Row 24370 3600 [(''availableBikeNumber'', 4)],
           Row 24370 3600 [(''availableBikeNumber'', 5)]]"
  by code_simp

text \<open>
  C2. The scenario of the specification: station 100 cached at 08:00 and 09:00, window
  from 06:00 to 10:00, a remote with every hour. The claim expects four rows with the
  fetched values at 08:00 and 09:00. The run writes six rows: at 08:00 and at 09:00
  the stale row (values 50 and 51) stays, followed by the fetched one (8 and 9).
\<close>

theorem C2_scenario_six_rows:
  "update_and_save_station_data stale_cache [100] 21600 36000 hourly_remote =
     \<lparr>calls = [(100, 21600, 36000)], raised = None,
      written = Some [Row 100 21600 [(''availableBikeNumber'', 6)],
                      Row 100 25200 [(''availableBikeNumber'', 7)],
                      Row 100 28800 [(''availableBikeNumber'', 50)],
                      Row 100 28800 [(''availableBikeNumber'', 8)],
                      Row 100 32400 [(''availableBikeNumber'', 51)],
                      Row 100 32400 [(''availableBikeNumber'', 9)]]\<rparr>"
  by code_simp

text \<open>
  C3. The claim: a second run with the same window and the same remote data leaves the
  file as the first run wrote it. With a remote that has only 07:00, the first run
  writes that row; the second run still lacks 06:00, fetches again from 06:00 and
  appends the same row once more.
\<close>

theorem C3_second_run_changes_file:
  "file_after None (update_and_save_station_data None [100] 21600 36000 partial_remote) =
     Some [Row 100 25200 [(''availableBikeNumber'', 7)]]
   \<and> file_after (Some [Row 100 25200 [(''availableBikeNumber'', 7)]])
        (update_and_save_station_data (Some [Row 100 25200 [(''availableBikeNumber'', 7)]])
           [100] 21600 36000 partial_remote) =
     Some [Row 100 25200 [(''availableBikeNumber'', 7)],
           Row 100 25200 [(''availableBikeNumber'', 7)]]"
  by code_simp

text \<open>
  C4. The claim: no exception leaves the routine. The cast of \<open>entityId\<close> to
  \<open>int64\<close> in the merge is outside the \<open>try\<close> block of the loop: for a response
  whose entity identifier does not match the pattern, the parsed rows carry the empty
  string, the cast raises \<open>ValueError\<close>, and nothing is written.
\<close>

theorem C4_merge_cast_raises:
  "update_and_save_station_data None [24370] 0 3600 unmatched_remote =
     \<lparr>calls = [(24370, 0, 3600)], raised = Some ValueError, written = None\<rparr>"
  by code_simp

text \<open>
  C5. The claim: for every station of \<open>STATION_IDS\<close> the remote is called if and only if
  the cache lacks an hour of the window for it. A cache file that exists and has no
  row (the routine writes such a file itself, when the first response it parses has no
  reading) makes the load raise \<open>TypeError\<close> before the loop: every hour is missing
  and no call is made. For every other cache the claim holds (\<open>fetch_calls_loaded\<close>).
\<close>

theorem C5_header_only_file_no_fetch:
  "written (update_and_save_station_data None [24370] 0 3600 empty_remote) = Some []
   \<and> update_and_save_station_data (Some []) [24370] 0 3600 kiel_remote =
       \<lparr>calls = [], raised = Some TypeError, written = None\<rparr>"
  by code_simp

text \<open>
  C6. A station that was called and whose request raised, whose response is not 200 or
  not JSON, or whose object lacks \<open>index\<close>, \<open>entityId\<close> or \<open>attributes\<close> (the parser
  then raises \<open>ValueError\<close>, which the loop catches), contributes no rows and changes
  nothing else: the run writes and raises exactly what it does without that station in
  the list, and the stations before and after it are called as they are without it.
\<close>

theorem C6_station_failure_isolated:
  assumes "(s, h, E) \<in> set (calls (update_and_save_station_data cache (pre @ s # post) S E remote))"
    and "failed_response (remote s h E)"
  shows "written (update_and_save_station_data cache (pre @ s # post) S E remote) =
           written (update_and_save_station_data cache (pre @ post) S E remote)
       \<and> raised (update_and_save_station_data cache (pre @ s # post) S E remote) =
           raised (update_and_save_station_data cache (pre @ post) S E remote)
       \<and> calls (update_and_save_station_data cache (pre @ s # post) S E remote) =
           calls (update_and_save_station_data cache pre S E remote) @ [(s, h, E)] @
           calls (update_and_save_station_data cache post S E remote)"
proof -
  have l: "cache \<noteq> Some []"
    using assms(1) by (rule called_loaded)
  obtain hs where m: "missing_hours cache S E s = h # hs"
    using called_missing_hours[OF assms(1)] by blast
  have fr: "concat (map (station_frames (retained cache S) (date_range S (E - 3600)) E remote)
                     (pre @ s # post)) =
            concat (map (station_frames (retained cache S) (date_range S (E - 3600)) E remote)
                     (pre @ post))"
    by (simp add: station_frames_failed[where remote = remote, OF m assms(2)])
  have c: "station_calls (retained cache S) (date_range S (E - 3600)) E s = [(s, h, E)]"
    by (simp add: station_calls_missing_hours m)
  show ?thesis
    by (simp add: update_cong_frames[OF fr] calls_update[OF l] c)
qed

theorem C6_witness:
  "written (update_and_save_station_data None ([] @ 24397 # [24370]) 0 3600 kiel_remote) =
     written (update_and_save_station_data None ([] @ [24370]) 0 3600 kiel_remote)
   \<and> raised (update_and_save_station_data None ([] @ 24397 # [24370]) 0 3600 kiel_remote) =
     raised (update_and_save_station_data None ([] @ [24370]) 0 3600 kiel_remote)
   \<and> calls (update_and_save_station_data None ([] @ 24397 # [24370]) 0 3600 kiel_remote) =
     [(24397, 0, 3600), (24370, 0, 3600)]
   \<and> written (update_and_save_station_data None ([] @ [24370]) 0 3600 kiel_remote) =
     Some [Row 24370 0 [(''availableBikeNumber'', 5)]]"
proof -
  have m: "(24397, 0, 3600) \<in>
             set (calls (update_and_save_station_data None ([] @ 24397 # [24370]) 0 3600 kiel_remote))"
    by code_simp
  have f: "failed_response (kiel_remote 24397 0 3600)"
    by code_simp
  have c1: "calls (update_and_save_station_data None [] 0 3600 kiel_remote) = []"
    by code_simp
  have c2: "calls (update_and_save_station_data None [24370] 0 3600 kiel_remote) = [(24370, 0, 3600)]"
    by code_simp
  have w: "written (update_and_save_station_data None ([] @ [24370]) 0 3600 kiel_remote) =
     Some [Row 24370 0 [(''availableBikeNumber'', 5)]]"
    by code_simp
  show ?thesis
    using C6_station_failure_isolated[where remote = kiel_remote, OF m f] c1 c2 w by simp
qed

text \<open>
  C7. The claim: when no readings are accumulated, the file is left untouched. The
  routine tests whether the list of frames is empty, not whether the frames hold
  rows: a response that parses into a frame of no rows makes the run write, and the
  rows before \<open>START_DATE\<close> are gone from the file, though no reading was fetched.
\<close>

theorem C7_empty_frame_rewrites_file:
  "concat (dataframes (station_loop (retained old_cache 0) (date_range 0 (3600 - 3600)) 3600
             empty_remote [24370])) = []
   \<and> update_and_save_station_data old_cache [24370] 0 3600 empty_remote =
       \<lparr>calls = [(24370, 0, 3600)], raised = None, written = Some []\<rparr>
   \<and> file_after old_cache (update_and_save_station_data old_cache [24370] 0 3600 empty_remote)
       \<noteq> old_cache"
  by code_simp

text \<open>
  C8. Every written file is in non-decreasing lexicographic order of
  (\<open>entityId\<close>, \<open>time_utc\<close>); the frame handed to \<open>to_csv\<close> has the index labels
  0, 1, ..., n - 1, and the file holds its rows without the labels.
\<close>

theorem C8_written_sorted_dense:
  assumes "written (update_and_save_station_data cache ids S E remote) = Some rows"
  shows "sorted (map sort_key_of rows)
       \<and> (\<exists>old combined.
            old_data_temp cache S = Inr old
            \<and> combined_data_temp old
                (dataframes (station_loop old (date_range S (E - 3600)) E remote ids))
                = Inr combined
            \<and> map fst combined = [0 ..< length rows]
            \<and> rows = to_csv combined)"
proof -
  obtain new where
    "new_data_temp
       (dataframes (station_loop (retained cache S) (date_range S (E - 3600)) E remote ids))
       = Inr new"
    and "rows = sort_key sort_key_of
                  (filter (\<lambda>r. S \<le> time_utc r) (cache_rows cache) @ map snd new)"
    using written_new[OF assms] by blast
  then have s: "sorted (map sort_key_of rows)"
    by (simp only: sorted_sort_key)
  obtain old combined where
    o: "old_data_temp cache S = Inr old"
    and c: "combined_data_temp old
          (dataframes (station_loop old (date_range S (E - 3600)) E remote ids))
          = Inr combined"
    and r: "rows = to_csv combined"
    using written_combined[OF assms] by blast
  have "map fst combined = [0 ..< length rows]"
    using combined_labels[OF c] r by (simp add: to_csv_def)
  with s o c r show ?thesis by blast
qed

theorem C8_witness:
  "written (update_and_save_station_data stale_cache [100] 21600 36000 hourly_remote) =
     Some [Row 100 21600 [(''availableBikeNumber'', 6)],
           Row 100 25200 [(''availableBikeNumber'', 7)],
           Row 100 28800 [(''availableBikeNumber'', 50)],
           Row 100 28800 [(''availableBikeNumber'', 8)],
           Row 100 32400 [(''availableBikeNumber'', 51)],
           Row 100 32400 [(''availableBikeNumber'', 9)]]
   \<and> sorted (map sort_key_of
         [Row 100 21600 [(''availableBikeNumber'', 6)],
          Row 100 25200 [(''availableBikeNumber'', 7)],
          Row 100 28800 [(''availableBikeNumber'', 50)],
          Row 100 28800 [(''availableBikeNumber'', 8 :: int)],
          Row 100 32400 [(''availableBikeNumber'', 51)],
          Row 100 32400 [(''availableBikeNumber'', 9)]])"
proof -
  have h: "written (update_and_save_station_data stale_cache [100] 21600 36000 hourly_remote) =
     Some [Row 100 21600 [(''availableBikeNumber'', 6)],
           Row 100 25200 [(''availableBikeNumber'', 7)],
           Row 100 28800 [(''availableBikeNumber'', 50)],
           Row 100 28800 [(''availableBikeNumber'', 8)],
           Row 100 32400 [(''availableBikeNumber'', 51)],
           Row 100 32400 [(''availableBikeNumber'', 9)]]"
    by code_simp
  from h C8_written_sorted_dense[OF h, THEN conjunct1] show ?thesis
    by (rule conjI)
qed

text \<open>
  C9. The rows of a written file are, as a multiset, the rows of the old file at or
  after \<open>START_DATE\<close> together with the fetched rows; so a row of the written file
  that lies before \<open>START_DATE\<close> is a fetched row, never one kept from the old file. A
  missing file is an empty cache and no error: the load does not raise, every hour of
  the window is missing for every listed station, which is called from \<open>START_DATE\<close>,
  and a file that is written holds the fetched rows and nothing else.
\<close>

theorem C9_pruned_rows_and_missing_file:
  fixes cache :: "'v csv_file"
  shows "(written (update_and_save_station_data cache ids S E remote) = Some rows \<longrightarrow>
      (\<exists>old new.
         old_data_temp cache S = Inr old
         \<and> new_data_temp
             (dataframes (station_loop old (date_range S (E - 3600)) E remote ids)) = Inr new
         \<and> mset rows = mset (filter (\<lambda>r. S \<le> time_utc r) (cache_rows cache)) + mset (map snd new)
         \<and> (\<forall>r \<in> set rows. time_utc r < S \<longrightarrow> r \<in> set (map snd new))))
   \<and> raised (update_and_save_station_data (None :: 'v csv_file) ids S E remote) \<noteq> Some TypeError
   \<and> calls (update_and_save_station_data (None :: 'v csv_file) ids S E remote) =
       concat (map (\<lambda>s. if E - 3600 < S then [] else [(s, S, E)]) ids)
   \<and> (written (update_and_save_station_data (None :: 'v csv_file) ids S E remote) = Some rows' \<longrightarrow>
        (\<exists>new.
           new_data_temp
             (dataframes (station_loop [] (date_range S (E - 3600)) E remote ids)) = Inr new
           \<and> mset rows' = mset (map snd new)))"
proof (intro conjI impI)
  assume w: "written (update_and_save_station_data cache ids S E remote) = Some rows"
  have o: "old_data_temp cache S = Inr (retained cache S)"
    using written_loaded[OF w] by (rule old_data_temp_retained)
  obtain new where
    n: "new_data_temp
          (dataframes (station_loop (retained cache S) (date_range S (E - 3600)) E remote ids))
          = Inr new"
    and r: "rows = sort_key sort_key_of
                    (filter (\<lambda>r. S \<le> time_utc r) (cache_rows cache) @ map snd new)"
    using written_new[OF w] by blast
  have m: "mset rows = mset (filter (\<lambda>r. S \<le> time_utc r) (cache_rows cache)) + mset (map snd new)"
    unfolding r by simp
  have "\<forall>r \<in> set rows. time_utc r < S \<longrightarrow> r \<in> set (map snd new)"
    unfolding r by auto
  with o n m show "\<exists>old new.
         old_data_temp cache S = Inr old
         \<and> new_data_temp
             (dataframes (station_loop old (date_range S (E - 3600)) E remote ids)) = Inr new
         \<and> mset rows = mset (filter (\<lambda>r. S \<le> time_utc r) (cache_rows cache)) + mset (map snd new)
         \<and> (\<forall>r \<in> set rows. time_utc r < S \<longrightarrow> r \<in> set (map snd new))"
    by blast
next
  have l: "(None :: 'v csv_file) \<noteq> Some []"
    by simp
  show "raised (update_and_save_station_data (None :: 'v csv_file) ids S E remote) \<noteq> Some TypeError"
  proof (cases "new_data_temp
                  (concat (map (station_frames (retained (None :: 'v csv_file) S)
                     (date_range S (E - 3600)) E remote) ids))")
    case (Inl e)
    then have "e \<noteq> TypeError"
      using new_data_temp_no_TypeError by metis
    with Inl show ?thesis
      by (simp add: raised_update[OF l] Let_def)
  next
    case (Inr new)
    then show ?thesis
      by (simp add: raised_update[OF l] Let_def)
  qed
next
  have l: "(None :: 'v csv_file) \<noteq> Some []"
    by simp
  have "station_calls (retained (None :: 'v csv_file) S) (date_range S (E - 3600)) E =
          (\<lambda>s. if E - 3600 < S then [] else [(s, S, E)])"
  proof (rule ext)
    fix s
    have all: "missing_hours (None :: 'v csv_file) S E s = date_range S (E - 3600)"
      by (simp add: missing_hours_def cached_def cache_rows_def)
    have sc: "station_calls (retained (None :: 'v csv_file) S) (date_range S (E - 3600)) E s =
            (case date_range S (E - 3600) of [] \<Rightarrow> [] | h # _ \<Rightarrow> [(s, h, E)])"
      by (simp only: station_calls_missing_hours all)
    show "station_calls (retained (None :: 'v csv_file) S) (date_range S (E - 3600)) E s =
            (if E - 3600 < S then [] else [(s, S, E)])"
    proof (cases "E - 3600 < S")
      case True
      then have "date_range S (E - 3600) = []"
        by (simp add: date_range_Nil)
      with True sc show ?thesis
        by simp
    next
      case False
      then obtain hs where "date_range S (E - 3600) = S # hs"
        using date_range_Cons[of S "E - 3600"] by auto
      with False sc show ?thesis
        by simp
    qed
  qed
  then show "calls (update_and_save_station_data (None :: 'v csv_file) ids S E remote) =
       concat (map (\<lambda>s. if E - 3600 < S then [] else [(s, S, E)]) ids)"
    by (simp add: calls_update[OF l])
next
  assume w: "written (update_and_save_station_data (None :: 'v csv_file) ids S E remote) = Some rows'"
  have e: "retained (None :: 'v csv_file) S = []"
    by (simp add: retained_def cache_rows_def read_csv_def)
  obtain new where
    n: "new_data_temp
          (dataframes (station_loop (retained (None :: 'v csv_file) S)
             (date_range S (E - 3600)) E remote ids)) = Inr new"
    and r: "rows' = sort_key sort_key_of
                    (filter (\<lambda>r. S \<le> time_utc r) (cache_rows (None :: 'v csv_file)) @ map snd new)"
    using written_new[OF w] by blast
  have "mset rows' = mset (map snd new)"
    unfolding r by (simp add: cache_rows_def)
  with n show "\<exists>new.
           new_data_temp
             (dataframes (station_loop [] (date_range S (E - 3600)) E remote ids)) = Inr new
           \<and> mset rows' = mset (map snd new)"
    unfolding e by blast
qed

theorem C9_witness:
  "(\<exists>old new.
      old_data_temp old_cache 0 = Inr old
      \<and> new_data_temp
          (dataframes (station_loop old (date_range 0 (3600 - 3600)) 3600 kiel_remote [24370]))
          = Inr new
      \<and> mset [Row 24370 0 [(''availableBikeNumber'', 5 :: int)]] =
          mset (filter (\<lambda>r. 0 \<le> time_utc r) (cache_rows old_cache)) + mset (map snd new))
   \<and> filter (\<lambda>r. 0 \<le> time_utc r) (cache_rows old_cache) = []
   \<and> calls (update_and_save_station_data (None :: int csv_file) [24370] 0 3600 kiel_remote) =
       [(24370, 0, 3600)]"
proof -
  have h: "written (update_and_save_station_data old_cache [24370] 0 3600 kiel_remote) =
     Some [Row 24370 0 [(''availableBikeNumber'', 5)]]"
    by code_simp
  have p: "filter (\<lambda>r. 0 \<le> time_utc r) (cache_rows old_cache) = []"
    by code_simp
  note t = C9_pruned_rows_and_missing_file[of old_cache "[24370]" 0 3600 kiel_remote
        "[Row 24370 0 [(''availableBikeNumber'', 5)]]"]
  have a: "\<exists>old new.
      old_data_temp old_cache 0 = Inr old
      \<and> new_data_temp
          (dataframes (station_loop old (date_range 0 (3600 - 3600)) 3600 kiel_remote [24370]))
          = Inr new
      \<and> mset [Row 24370 0 [(''availableBikeNumber'', 5 :: int)]] =
          mset (filter (\<lambda>r. 0 \<le> time_utc r) (cache_rows old_cache)) + mset (map snd new)"
    using t[THEN conjunct1, rule_format, OF h] by blast
  have c: "calls (update_and_save_station_data (None :: int csv_file) [24370] 0 3600 kiel_remote) =
       [(24370, 0, 3600)]"
    using t[THEN conjunct2, THEN conjunct2, THEN conjunct1] by simp
  from a p c show ?thesis
    by (intro conjI)
qed

text \<open>
  C10. The claim: for every fetch response with a reading outside the window, that
  row is written to the file. No filter on \<open>time_utc\<close> is applied to fetched rows, but
  the file is written only if the cast of the merge succeeds for the rows of all
  stations: here station 100 answers with readings at 05:00, 06:00 and 07:00 for the
  window from 06:00 to 07:00, a second station answers with an entity identifier that
  does not match, and nothing is written.
\<close>

theorem C10_counterexample:
  "mixed_remote 100 21600 25200 =
     Response 200 (Some \<lparr>index = Some [18000, 21600, 25200],
       entity = Some ''urn:ngsi-ld:BikeHireDockingStation:KielRegion:100'',
       attributes = Some [Attribute (Some ''availableBikeNumber'') (Some [5, 6, 7])],
       other_keys = False\<rparr>)
   \<and> update_and_save_station_data None [100, 24370] 21600 25200 mixed_remote =
       \<lparr>calls = [(100, 21600, 25200), (24370, 21600, 25200)],
        raised = Some ValueError, written = None\<rparr>"
  by code_simp

text \<open>
  C10, as amended: whenever a run writes the file, the file holds every row of every
  frame that a response parsed into, with \<open>entityId\<close> cast and \<open>time_utc\<close> and the
  cells as parsed; the frame has one row for each instant of the response's index,
  whatever the instant, also before \<open>START_DATE\<close> and at or after \<open>END_DATE\<close>.
\<close>

theorem C10_fetched_rows_not_filtered:
  assumes "s \<in> set ids"
    and "missing_hours cache S E s = h # hs"
    and "remote s h E = Response 200 (Some data)"
    and "create_dataframe_from_api_data data = Inr df"
    and "written (update_and_save_station_data cache ids S E remote) = Some rows"
  shows "(\<forall>p \<in> set df. \<exists>n. int64_of_entity (entityId (snd p)) = Inr n \<and>
                               Row n (time_utc (snd p)) (cells (snd p)) \<in> set rows)
       \<and> index data = Some (map (\<lambda>p. time_utc (snd p)) df)"
proof -
  let ?old = "retained cache S"
  let ?dfs = "concat (map (station_frames ?old (date_range S (E - 3600)) E remote) ids)"
  have l: "cache \<noteq> Some []"
    using assms(5) by (rule written_loaded)
  have fr: "station_frames ?old (date_range S (E - 3600)) E remote s = [df]"
    using assms(2,3,4) by (rule station_frames_parsed)
  then have mem: "df \<in> set ?dfs"
    using assms(1) by force
  obtain new where new: "new_data_temp ?dfs = Inr new"
    and w: "rows = sort_key sort_key_of (map snd ?old @ map snd new)"
    using assms(5) by (auto simp: written_update[OF l] Let_def split: sum.splits if_splits)
  have "\<exists>n. int64_of_entity (entityId (snd p)) = Inr n \<and>
             Row n (time_utc (snd p)) (cells (snd p)) \<in> set (map snd new)"
    if p: "p \<in> set df" for p
  proof -
    have "(fst p, snd p) \<in> set (concat ?dfs)"
      using p mem by auto
    from astype_int64_row[OF new[unfolded new_data_temp_def] this]
    show ?thesis by force
  qed
  then have rows: "\<forall>p \<in> set df. \<exists>n. int64_of_entity (entityId (snd p)) = Inr n \<and>
                               Row n (time_utc (snd p)) (cells (snd p)) \<in> set rows"
    unfolding w by fastforce
  obtain ti where ti: "index data = Some ti"
    using create_dataframe_keys[OF assms(4)] by auto
  have "index data = Some (map (\<lambda>p. time_utc (snd p)) df)"
    using create_dataframe_times[OF assms(4) ti] ti by simp
  with rows show ?thesis by blast
qed

theorem C10_witness:
  "written (update_and_save_station_data None [100] 21600 25200 wide_remote) =
     Some [Row 100 18000 [(''availableBikeNumber'', 5)],
           Row 100 21600 [(''availableBikeNumber'', 6)],
           Row 100 25200 [(''availableBikeNumber'', 7)]]
   \<and> Row 100 18000 [(''availableBikeNumber'', 5)] \<in>
       set [Row 100 18000 [(''availableBikeNumber'', 5)],
            Row 100 21600 [(''availableBikeNumber'', 6)],
            Row 100 25200 [(''availableBikeNumber'', 7 :: int)]]
   \<and> Row 100 25200 [(''availableBikeNumber'', 7)] \<in>
       set [Row 100 18000 [(''availableBikeNumber'', 5)],
            Row 100 21600 [(''availableBikeNumber'', 6)],
            Row 100 25200 [(''availableBikeNumber'', 7 :: int)]]"
proof -
  let ?data = "\<lparr>index = Some [18000, 21600, 25200],
                 entity = Some ''urn:ngsi-ld:BikeHireDockingStation:KielRegion:100'',
                 attributes = Some [Attribute (Some ''availableBikeNumber'') (Some [5, 6, 7 :: int])],
                 other_keys = False\<rparr>"
  let ?df = "[(0 :: nat, Row (Some ''100'') 18000 [(''availableBikeNumber'', 5 :: int)]),
              (1, Row (Some ''100'') 21600 [(''availableBikeNumber'', 6)]),
              (2, Row (Some ''100'') 25200 [(''availableBikeNumber'', 7)])]"
  have s: "(100 :: int) \<in> set [100]"
    by simp
  have m: "missing_hours (None :: int csv_file) 21600 25200 100 = 21600 # []"
    by code_simp
  have r: "wide_remote 100 21600 25200 = Response 200 (Some ?data)"
    by code_simp
  have d: "create_dataframe_from_api_data ?data = Inr ?df"
    by code_simp
  have w: "written (update_and_save_station_data None [100] 21600 25200 wide_remote) =
     Some [Row 100 18000 [(''availableBikeNumber'', 5)],
           Row 100 21600 [(''availableBikeNumber'', 6)],
           Row 100 25200 [(''availableBikeNumber'', 7)]]"
    by code_simp
  have i: "int64_of_entity (Some ''100'') = Inr 100"
    by code_simp
  show ?thesis
    using C10_fetched_rows_not_filtered[OF s m r d w, THEN conjunct1] w i by simp
qed

end
